theory Spec2Isabelle
  imports Main "HOL-Library.Word"
begin

section \<open>The serialization bridge (Compiler/Proto/ffi.cpp)\<close>

text \<open>
  Machine types of the C interface. \<open>int\<close> is a 32-bit two's complement word, read with
  \<open>sint\<close>; \<open>size_t\<close> and \<open>void*\<close> are 64-bit words, the null address being \<open>0\<close>.
\<close>

type_synonym c_int = "32 word"
type_synonym size_t = "64 word"
type_synonym uint8_t = "8 word"
type_synonym voidp = "64 word"

text \<open>
  The generated protobuf classes are only forward-declared in ffi.cpp
  (\<^verbatim>\<open>class TokenStream; class Module;\<close>). No function of the bridge looks inside
  either of them. \<open>Module\<close> stays an opaque type.
\<close>

typedecl Module

text \<open>
  Modelled from the spec: the declaration of \<^verbatim>\<open>fax::compiler::TokenStream\<close> is generated
  code that is not part of the sources. The spec's data model gives a decoded token stream
  as an ordered sequence of Token records, each with an integer kind tag, a text, a line
  and a column. The fields carry the prefix \<open>tok_\<close>.
\<close>

record Token =
  tok_kind :: c_int
  tok_text :: string
  tok_line :: c_int
  tok_column :: c_int

type_synonym TokenStream = "Token list"

text \<open>
  \<^verbatim>\<open>struct ProtoContextData\<close>: a \<^verbatim>\<open>std::unique_ptr\<close> is either null or owns one object,
  which is an \<open>option\<close>.
\<close>

record ProtoContextData =
  error :: string
  buffer :: "uint8_t list"
  temp_string :: string
  token_stream :: "TokenStream option"
  module :: "Module option"

text \<open>
  A \<^verbatim>\<open>ProtoContext\<close> handle is either the null pointer (\<open>None\<close>) or points to a live
  context (\<open>Some data\<close>). Every function that may write through the handle returns the
  handle's target after the call. The same reading is used for every other pointer
  argument: \<open>None\<close> is the null pointer, \<open>Some v\<close> a valid pointer whose target holds \<open>v\<close>;
  an out-parameter is returned with its target as the call leaves it.
\<close>

type_synonym ProtoContext = "ProtoContextData option"

text \<open>
  \<^verbatim>\<open>new ProtoContextData()\<close> value-initialises the struct: both strings and the vector
  are empty, both \<^verbatim>\<open>unique_ptr\<close>s are null. \<^verbatim>\<open>new\<close> never returns null (it throws when the
  allocation fails, and the function then does not return at all).
\<close>

definition ProtoContextData_init :: ProtoContextData where
  "ProtoContextData_init =
     \<lparr>error = [], buffer = [], temp_string = [], token_stream = None, module = None\<rparr>"

definition fax_proto_context_new :: ProtoContext where
  "fax_proto_context_new = Some ProtoContextData_init"

text \<open>
  \<^verbatim>\<open>fax_proto_get_error\<close>: null when the handle is null or the error string is empty;
  otherwise the error is copied into \<^verbatim>\<open>temp_string\<close>, whose characters are returned.
\<close>

fun fax_proto_get_error :: "ProtoContext \<Rightarrow> string option \<times> ProtoContext" where
  "fax_proto_get_error None = (None, None)"
| "fax_proto_get_error (Some data) =
     (if error data = [] then (None, Some data)
      else (let data' = data\<lparr>temp_string := error data\<rparr>
            in (Some (temp_string data'), Some data')))"

text \<open>
  \<^verbatim>\<open>fax_serialize_tokens\<close>: the result is the returned buffer pointer, the target of
  \<^verbatim>\<open>out_size\<close> and the context. The guard returns before anything is written.
\<close>

fun fax_serialize_tokens ::
  "ProtoContext \<Rightarrow> string option \<Rightarrow> size_t option \<Rightarrow>
     uint8_t list option \<times> size_t option \<times> ProtoContext" where
  "fax_serialize_tokens (Some data) (Some source) (Some out_size) =
     (None, Some 0,
      Some (data\<lparr>error := ''Token serialization not yet implemented with protobuf'',
                 buffer := []\<rparr>))"
| "fax_serialize_tokens ctx source out_size = (None, out_size, ctx)"

text \<open>
  \<^verbatim>\<open>fax_deserialize_tokens\<close>: \<^verbatim>\<open>data\<close> is the (nullable) pointer to the bytes, \<^verbatim>\<open>size\<close>
  the length the caller passes beside it (\<open>sz\<close> for the source's \<^verbatim>\<open>size\<close>).
\<close>

fun fax_deserialize_tokens ::
  "ProtoContext \<Rightarrow> uint8_t list option \<Rightarrow> size_t \<Rightarrow> c_int \<times> ProtoContext" where
  "fax_deserialize_tokens (Some ctx_data) (Some data) sz =
     (if sz = 0 then (- 1, Some ctx_data)
      else (- 1, Some (ctx_data\<lparr>error := ''Token deserialization not yet implemented''\<rparr>)))"
| "fax_deserialize_tokens ctx data sz = (- 1, ctx)"

text \<open>\<^verbatim>\<open>fax_get_token_count\<close>: both branches of the source return 0.\<close>

fun fax_get_token_count :: "ProtoContext \<Rightarrow> c_int" where
  "fax_get_token_count None = 0"
| "fax_get_token_count (Some data) = (if token_stream data = None then 0 else 0)"

text \<open>
  \<^verbatim>\<open>fax_get_token_info\<close>: the context and the index are not used; each out-parameter
  that is not null receives its default. The result is the four targets after the call.
  The target of \<^verbatim>\<open>text\<close> is itself a \<^verbatim>\<open>const char*\<close>, set to point at the empty string.
\<close>

definition fax_get_token_info ::
  "ProtoContext \<Rightarrow> c_int \<Rightarrow> c_int option \<Rightarrow> string option option \<Rightarrow> c_int option \<Rightarrow>
     c_int option \<Rightarrow> c_int option \<times> string option option \<times> c_int option \<times> c_int option" where
  "fax_get_token_info ctx index type text line col =
     ((case type of None \<Rightarrow> None | Some _ \<Rightarrow> Some 0),
      (case text of None \<Rightarrow> None | Some _ \<Rightarrow> Some (Some [])),
      (case line of None \<Rightarrow> None | Some _ \<Rightarrow> Some 0),
      (case col of None \<Rightarrow> None | Some _ \<Rightarrow> Some 0))"

text \<open>\<^verbatim>\<open>fax_serialize_module\<close>: as for tokens, but the buffer is not cleared.\<close>

fun fax_serialize_module ::
  "ProtoContext \<Rightarrow> string option \<Rightarrow> size_t option \<Rightarrow>
     uint8_t list option \<times> size_t option \<times> ProtoContext" where
  "fax_serialize_module (Some data) (Some ast_json) (Some out_size) =
     (None, Some 0, Some (data\<lparr>error := ''Module serialization not yet implemented''\<rparr>))"
| "fax_serialize_module ctx ast_json out_size = (None, out_size, ctx)"

text \<open>
  \<^verbatim>\<open>fax_deserialize_module\<close>: \<^verbatim>\<open>out_json\<close> is a nullable pointer to a \<^verbatim>\<open>char*\<close>; the
  function never writes through it, so only the status and the context are returned.
\<close>

fun fax_deserialize_module ::
  "ProtoContext \<Rightarrow> uint8_t list option \<Rightarrow> size_t \<Rightarrow> string option option \<Rightarrow>
     c_int \<times> ProtoContext" where
  "fax_deserialize_module (Some ctx_data) (Some data) sz (Some out_json) =
     (if sz = 0 then (- 1, Some ctx_data)
      else (- 1, Some (ctx_data\<lparr>error := ''Module deserialization not yet implemented''\<rparr>)))"
| "fax_deserialize_module ctx data sz out_json = (- 1, ctx)"

subsection \<open>Sequences of calls on one context\<close>

text \<open>
  A caller's session on one handle: every context-taking entry point with its arguments.
  \<open>perform\<close> makes the call and keeps the handle's target; \<open>run\<close> makes the calls of
  a list in order.
\<close>

datatype call =
    GetError
  | SerializeTokens "string option" "size_t option"
  | DeserializeTokens "uint8_t list option" size_t
  | GetTokenCount
  | GetTokenInfo c_int "c_int option" "string option option" "c_int option" "c_int option"
  | SerializeModule "string option" "size_t option"
  | DeserializeModule "uint8_t list option" size_t "string option option"

fun perform :: "call \<Rightarrow> ProtoContext \<Rightarrow> ProtoContext" where
  "perform GetError ctx = snd (fax_proto_get_error ctx)"
| "perform (SerializeTokens source out_size) ctx =
     snd (snd (fax_serialize_tokens ctx source out_size))"
| "perform (DeserializeTokens data sz) ctx = snd (fax_deserialize_tokens ctx data sz)"
| "perform GetTokenCount ctx = ctx"
| "perform (GetTokenInfo index type text line col) ctx = ctx"
| "perform (SerializeModule ast_json out_size) ctx =
     snd (snd (fax_serialize_module ctx ast_json out_size))"
| "perform (DeserializeModule data sz out_json) ctx =
     snd (fax_deserialize_module ctx data sz out_json)"

fun run :: "call list \<Rightarrow> ProtoContext \<Rightarrow> ProtoContext" where
  "run [] ctx = ctx"
| "run (c # cs) ctx = run cs (perform c ctx)"

section \<open>The allocation runtime (faxc-runtime/src/runtime.c)\<close>

text \<open>
  The process-wide state is the flag \<^verbatim>\<open>static int gc_initialized\<close>; the lines written to
  \<^verbatim>\<open>stderr\<close> are kept beside it, since an allocation failure is reported there.
\<close>

record runtime =
  gc_initialized :: c_int
  stderr :: "string list"

definition runtime_initial :: runtime where
  "runtime_initial = \<lparr>gc_initialized = 0, stderr = []\<rparr>"

definition fax_gc_init :: "runtime \<Rightarrow> c_int \<times> runtime" where
  "fax_gc_init rt =
     (if gc_initialized rt \<noteq> 0 then (1, rt)
      else (1, rt\<lparr>gc_initialized := 1\<rparr>))"

text \<open>
  \<^verbatim>\<open>fax_gc_alloc\<close>: the C library's \<^verbatim>\<open>malloc\<close> is the environment's; it is a parameter
  giving the address returned for a size, \<open>0\<close> when it returns \<^verbatim>\<open>NULL\<close>.
\<close>

definition fax_gc_alloc :: "(size_t \<Rightarrow> voidp) \<Rightarrow> size_t \<Rightarrow> runtime \<Rightarrow> voidp \<times> runtime" where
  "fax_gc_alloc malloc sz rt =
     (let rt1 = (if gc_initialized rt = 0 then snd (fax_gc_init rt) else rt);
          ptr = malloc sz
      in if ptr = 0
         then (0, rt1\<lparr>stderr := stderr rt1 @
                 [''GC allocation failed: out of memory'' @ [CHR 0x0A]]\<rparr>)
         else (ptr, rt1))"

definition fax_gc_register_root :: "voidp \<Rightarrow> runtime \<Rightarrow> c_int \<times> runtime" where
  "fax_gc_register_root ptr rt = (1, rt)"

definition fax_gc_unregister_root :: "voidp \<Rightarrow> runtime \<Rightarrow> c_int \<times> runtime" where
  "fax_gc_unregister_root ptr rt = (1, rt)"

definition fax_gc_shutdown :: "runtime \<Rightarrow> runtime" where
  "fax_gc_shutdown rt = rt\<lparr>gc_initialized := 0\<rparr>"

text \<open>A caller that invokes \<^verbatim>\<open>fax_gc_init\<close> \<open>n\<close> times in a row, collecting the statuses.\<close>

fun repeat_gc_init :: "nat \<Rightarrow> runtime \<Rightarrow> c_int list \<times> runtime" where
  "repeat_gc_init 0 rt = ([], rt)"
| "repeat_gc_init (Suc n) rt =
     (let (r, rt') = fax_gc_init rt; (rs, rt'') = repeat_gc_init n rt'
      in (r # rs, rt''))"

section \<open>Properties of the bridge\<close>

text \<open>
  C8. \<^verbatim>\<open>fax_proto_context_new\<close> yields a context in the initial state: the error accessor
  returns absent on it, its encoded buffer is empty, and it holds neither a decoded
  token stream nor a decoded module.
\<close>

theorem C8_context_new_initial:
  "\<exists>data. fax_proto_context_new = Some data
     \<and> error data = [] \<and> buffer data = []
     \<and> token_stream data = None \<and> module data = None
     \<and> fax_proto_get_error fax_proto_context_new = (None, fax_proto_context_new)"
  by (simp add: fax_proto_context_new_def ProtoContextData_init_def)

subsection \<open>What each call does to a live context\<close>

lemma fax_proto_get_error_live:
  "\<exists>data'. snd (fax_proto_get_error (Some data)) = Some data'
     \<and> error data' = error data \<and> token_stream data' = token_stream data
     \<and> module data' = module data"
  by (simp add: Let_def)

lemma fax_proto_get_error_result:
  "fst (fax_proto_get_error (Some data)) = (if error data = [] then None else Some (error data))"
  by (simp add: Let_def)

lemma fax_serialize_tokens_live:
  "\<exists>data'. snd (snd (fax_serialize_tokens (Some data) source out_size)) = Some data'
     \<and> (error data' = error data
          \<or> error data' = ''Token serialization not yet implemented with protobuf'')
     \<and> token_stream data' = token_stream data \<and> module data' = module data"
  by (cases source; cases out_size) simp_all

lemma fax_serialize_module_live:
  "\<exists>data'. snd (snd (fax_serialize_module (Some data) ast_json out_size)) = Some data'
     \<and> (error data' = error data
          \<or> error data' = ''Module serialization not yet implemented'')
     \<and> token_stream data' = token_stream data \<and> module data' = module data"
  by (cases ast_json; cases out_size) simp_all

lemma fax_deserialize_tokens_live:
  "\<exists>data'. snd (fax_deserialize_tokens (Some ctx_data) data sz) = Some data'
     \<and> (error data' = error ctx_data
          \<or> error data' = ''Token deserialization not yet implemented'')
     \<and> token_stream data' = token_stream ctx_data \<and> module data' = module ctx_data"
  by (cases data) simp_all

lemma fax_deserialize_module_live:
  "\<exists>data'. snd (fax_deserialize_module (Some ctx_data) data sz out_json) = Some data'
     \<and> (error data' = error ctx_data
          \<or> error data' = ''Module deserialization not yet implemented'')
     \<and> token_stream data' = token_stream ctx_data \<and> module data' = module ctx_data"
  by (cases data; cases out_json) simp_all

lemma fax_deserialize_tokens_status: "fst (fax_deserialize_tokens ctx data sz) = - 1"
  by (cases ctx; cases data) simp_all

lemma fax_deserialize_module_status:
  "fst (fax_deserialize_module ctx data sz out_json) = - 1"
  by (cases ctx; cases data; cases out_json) simp_all


text \<open>
  One call on a live context leaves the handle live, never touches the decoded token
  stream or module, and either keeps the recorded error or replaces it by one of the
  four messages, none of which is empty.
\<close>

lemma perform_live:
  "\<exists>data'. perform c (Some data) = Some data'
     \<and> (error data' = error data \<or> error data' \<noteq> [])
     \<and> token_stream data' = token_stream data \<and> module data' = module data"
proof (cases c)
  case GetError
  then show ?thesis using fax_proto_get_error_live [of data] by auto
next
  case (SerializeTokens source out_size)
  then show ?thesis using fax_serialize_tokens_live [of data source out_size] by auto
next
  case (DeserializeTokens bytes sz)
  then show ?thesis using fax_deserialize_tokens_live [of data bytes sz] by auto
next
  case GetTokenCount
  then show ?thesis by simp
next
  case (GetTokenInfo index ty tx ln cl)
  then show ?thesis by simp
next
  case (SerializeModule ast_json out_size)
  then show ?thesis using fax_serialize_module_live [of data ast_json out_size] by auto
next
  case (DeserializeModule bytes sz out_json)
  then show ?thesis using fax_deserialize_module_live [of data bytes sz out_json] by auto
qed

lemma run_live:
  "\<exists>data'. run cs (Some data) = Some data'
     \<and> (error data \<noteq> [] \<longrightarrow> error data' \<noteq> [])
     \<and> token_stream data' = token_stream data \<and> module data' = module data"
proof (induction cs arbitrary: data)
  case Nil
  then show ?case by simp
next
  case (Cons c cs)
  obtain d1 where d1: "perform c (Some data) = Some d1"
      "error d1 = error data \<or> error d1 \<noteq> []"
      "token_stream d1 = token_stream data" "module d1 = module data"
    using perform_live [of c data] by blast
  obtain d2 where d2: "run cs (Some d1) = Some d2"
      "error d1 \<noteq> [] \<longrightarrow> error d2 \<noteq> []"
      "token_stream d2 = token_stream d1" "module d2 = module d1"
    using Cons.IH [of d1] by blast
  from d1 d2 show ?case by auto
qed

text \<open>
  C1. On a context just created, and on every other live context,
  \<^verbatim>\<open>fax_serialize_tokens\<close> with a non-null source text and a non-null size pointer returns
  the null buffer and stores 0 in the size; afterwards the error accessor returns the
  non-empty message that token serialization is not yet implemented.
\<close>

theorem C1_serialize_tokens_unavailable:
  "ctx = fax_proto_context_new \<or> ctx = Some data \<Longrightarrow>
   fax_serialize_tokens ctx (Some source) (Some size0) = (r, out_size, ctx') \<Longrightarrow>
   r = None \<and> out_size = Some 0
     \<and> fst (fax_proto_get_error ctx')
         = Some ''Token serialization not yet implemented with protobuf''
     \<and> fst (fax_proto_get_error ctx') \<noteq> Some []"
  by (auto simp: fax_proto_context_new_def)

theorem C1_serialize_tokens_unavailable_witness:
  "fax_serialize_tokens fax_proto_context_new (Some ''let x = 1'') (Some 7)
     = (None, Some 0,
        Some (ProtoContextData_init
                \<lparr>error := ''Token serialization not yet implemented with protobuf''\<rparr>))
   \<and> fst (fax_proto_get_error
        (Some (ProtoContextData_init
                \<lparr>error := ''Token serialization not yet implemented with protobuf''\<rparr>)))
       = Some ''Token serialization not yet implemented with protobuf''"
  using C1_serialize_tokens_unavailable
    [of fax_proto_context_new ProtoContextData_init "''let x = 1''" 7 None "Some 0"
        "Some (ProtoContextData_init
                \<lparr>error := ''Token serialization not yet implemented with protobuf''\<rparr>)"]
  by (simp add: fax_proto_context_new_def ProtoContextData_init_def)

text \<open>
  C2 (as stated, refuted). On a fresh context each of the four operations, called with a
  null required pointer or a zero length, fails, and the error accessor still returns
  absent afterwards: the guard returns before any error is recorded.
\<close>

theorem C2_invalid_argument_not_recorded:
  "fax_serialize_tokens fax_proto_context_new None (Some 5)
     = (None, Some 5, fax_proto_context_new)
   \<and> fax_deserialize_tokens fax_proto_context_new (Some [1, 2]) 0
     = (- 1, fax_proto_context_new)
   \<and> fax_serialize_module fax_proto_context_new None (Some 5)
     = (None, Some 5, fax_proto_context_new)
   \<and> fax_deserialize_module fax_proto_context_new None 2 (Some None)
     = (- 1, fax_proto_context_new)
   \<and> fst (fax_proto_get_error fax_proto_context_new) = None"
  by (simp add: fax_proto_context_new_def ProtoContextData_init_def)

text \<open>
  C2 (amended). On a live context, each of the four operations called with a null
  required pointer or a zero length returns its failure result (the null buffer, or
  status -1) and leaves the context and the size out-parameter exactly as they were. The
  recorded error is therefore unchanged, and the error accessor returns what it returned
  before the call; no message for the invalid argument is recorded.
\<close>

theorem C2_invalid_argument_leaves_context:
  "(source = None \<or> out_size = None \<longrightarrow>
      fax_serialize_tokens (Some d) source out_size = (None, out_size, Some d))
   \<and> (data = None \<or> sz = 0 \<longrightarrow>
      fax_deserialize_tokens (Some d) data sz = (- 1, Some d))
   \<and> (ast_json = None \<or> out_size = None \<longrightarrow>
      fax_serialize_module (Some d) ast_json out_size = (None, out_size, Some d))
   \<and> (data = None \<or> sz = 0 \<or> out_json = None \<longrightarrow>
      fax_deserialize_module (Some d) data sz out_json = (- 1, Some d))"
  by (cases source; cases out_size; cases data; cases ast_json; cases out_json) simp_all

theorem C2_invalid_argument_leaves_context_witness:
  "fax_serialize_tokens (Some ProtoContextData_init) None (Some 5)
     = (None, Some 5, Some ProtoContextData_init)
   \<and> fax_deserialize_tokens (Some ProtoContextData_init) None 0
     = (- 1, Some ProtoContextData_init)
   \<and> fax_serialize_module (Some ProtoContextData_init) None (Some 5)
     = (None, Some 5, Some ProtoContextData_init)
   \<and> fax_deserialize_module (Some ProtoContextData_init) None 0 None
     = (- 1, Some ProtoContextData_init)"
  using C2_invalid_argument_leaves_context
    [where source = None and out_size = "Some 5" and d = ProtoContextData_init
       and data = None and sz = 0 and ast_json = None and out_json = None]
  by simp

text \<open>
  C3. For every context (live or null) and every index at or above the token count,
  \<^verbatim>\<open>fax_get_token_info\<close> stores the empty-token sentinel in each out-parameter that is not
  null (kind 0, the empty text, line 0, column 0) and leaves a null one alone. The
  function has no failure path.
\<close>

theorem C3_token_info_sentinel:
  "sint (fax_get_token_count ctx) \<le> sint index \<Longrightarrow>
   fax_get_token_info ctx index type text line col
     = (map_option (\<lambda>_. 0) type, map_option (\<lambda>_. Some []) text,
        map_option (\<lambda>_. 0) line, map_option (\<lambda>_. 0) col)
   \<and> fax_get_token_info ctx index (Some t0) (Some x0) (Some l0) (Some c0)
     = (Some 0, Some (Some []), Some 0, Some 0)"
  by (simp add: fax_get_token_info_def split: option.splits)

theorem C3_token_info_sentinel_witness:
  "sint (fax_get_token_count fax_proto_context_new) \<le> sint (3 :: c_int)
   \<and> fax_get_token_info fax_proto_context_new 3 (Some 9) (Some (Some ''abc'')) None (Some 4)
     = (Some 0, Some (Some []), None, Some 0)"
  using C3_token_info_sentinel
    [of fax_proto_context_new 3 "Some 9" "Some (Some ''abc'')" None "Some 4"]
  by (simp add: fax_proto_context_new_def)



text \<open>
  C7. \<^verbatim>\<open>fax_deserialize_tokens\<close> with a null byte buffer or a zero length returns -1, on
  every context; and whenever the status is negative the context's decoded token stream
  is the one it held before the call.
\<close>

theorem C7_deserialize_tokens_failure:
  "(data = None \<or> sz = 0 \<longrightarrow> sint (fst (fax_deserialize_tokens ctx data sz)) = - 1)
   \<and> (sint (fst (fax_deserialize_tokens ctx data sz)) < 0 \<longrightarrow>
        map_option token_stream (snd (fax_deserialize_tokens ctx data sz))
          = map_option token_stream ctx)"
proof -
  have "map_option token_stream (snd (fax_deserialize_tokens ctx data sz))
          = map_option token_stream ctx"
  proof (cases ctx)
    case None
    then show ?thesis by simp
  next
    case (Some ctx_data)
    then show ?thesis using fax_deserialize_tokens_live [of ctx_data data sz] by auto
  qed
  then show ?thesis by (simp add: fax_deserialize_tokens_status)
qed

theorem C7_deserialize_tokens_failure_witness:
  "sint (fst (fax_deserialize_tokens fax_proto_context_new (Some [1, 2, 3]) 0)) = - 1
   \<and> sint (fst (fax_deserialize_tokens fax_proto_context_new (Some [1, 2, 3]) 0)) < 0
   \<and> map_option token_stream (snd (fax_deserialize_tokens fax_proto_context_new (Some [1, 2, 3]) 0))
       = Some None"
  using C7_deserialize_tokens_failure [of "Some [1, 2, 3]" 0 fax_proto_context_new]
  by (simp add: fax_proto_context_new_def ProtoContextData_init_def)

text \<open>
  C9. Every context-taking operation accepts the null handle: the error accessor returns
  absent, both serializers return the null buffer, both deserializers return -1, the
  token count is 0 and the token info call stores the sentinel in its out-parameters.
  The handle is still null afterwards and the size out-parameter is untouched.
\<close>

theorem C9_null_handle:
  "fax_proto_get_error None = (None, None)
   \<and> fax_serialize_tokens None source out_size = (None, out_size, None)
   \<and> fax_serialize_module None ast_json out_size = (None, out_size, None)
   \<and> fax_deserialize_tokens None data sz = (- 1, None)
   \<and> fax_deserialize_module None data sz out_json = (- 1, None)
   \<and> fax_get_token_count None = 0
   \<and> fax_get_token_info None index (Some t0) (Some x0) (Some l0) (Some c0)
       = (Some 0, Some (Some []), Some 0, Some 0)
   \<and> fax_get_token_info None index type text line col
       = (map_option (\<lambda>_. 0) type, map_option (\<lambda>_. Some []) text,
          map_option (\<lambda>_. 0) line, map_option (\<lambda>_. 0) col)"
  by (simp add: fax_get_token_info_def split: option.splits)

text \<open>
  C10. Once a context records an error, no sequence of operations on it clears the
  record: after any calls the error string is still non-empty, and the error accessor
  still returns a message (the old one, or the one a later failing call stored).
\<close>

theorem C10_error_never_cleared:
  "fst (fax_proto_get_error ctx) \<noteq> None \<Longrightarrow>
   fst (fax_proto_get_error (run calls ctx)) \<noteq> None
   \<and> (\<exists>data'. run calls ctx = Some data' \<and> error data' \<noteq> [])"
proof -
  assume set: "fst (fax_proto_get_error ctx) \<noteq> None"
  then obtain data where ctx: "ctx = Some data"
    by (cases ctx) auto
  with set have err: "error data \<noteq> []"
    by (auto simp: fax_proto_get_error_result split: if_splits)
  obtain data' where d': "run calls (Some data) = Some data'" "error data' \<noteq> []"
    using run_live [of calls data] err by blast
  then show ?thesis
    using ctx by (simp add: fax_proto_get_error_result)
qed

theorem C10_error_never_cleared_witness:
  "fst (fax_proto_get_error
      (Some (ProtoContextData_init\<lparr>error := ''Token deserialization not yet implemented''\<rparr>)))
     \<noteq> None
   \<and> fst (fax_proto_get_error
       (run [GetTokenCount, GetError, GetTokenInfo 0 (Some 1) None None None,
             SerializeTokens None None]
          (Some (ProtoContextData_init
                  \<lparr>error := ''Token deserialization not yet implemented''\<rparr>))))
     = Some ''Token deserialization not yet implemented''"
  using C10_error_never_cleared
    [of "Some (ProtoContextData_init\<lparr>error := ''Token deserialization not yet implemented''\<rparr>)"
        "[GetTokenCount, GetError, GetTokenInfo 0 (Some 1) None None None,
          SerializeTokens None None]"]
  by (simp add: ProtoContextData_init_def Let_def)

section \<open>Properties of the allocation runtime\<close>

lemma fax_gc_init_initialized: "gc_initialized (snd (fax_gc_init rt)) \<noteq> 0"
  by (simp add: fax_gc_init_def)

lemma fax_gc_init_again: "gc_initialized rt \<noteq> 0 \<Longrightarrow> fax_gc_init rt = (1, rt)"
  by (simp add: fax_gc_init_def)

lemma repeat_gc_init_statuses: "fst (repeat_gc_init n rt) = replicate n 1"
  by (induction n arbitrary: rt) (simp_all add: fax_gc_init_def split_beta)

lemma repeat_gc_init_initialized:
  "gc_initialized rt \<noteq> 0 \<Longrightarrow> snd (repeat_gc_init n rt) = rt"
  by (induction n) (simp_all add: fax_gc_init_again split_beta)

lemma repeat_gc_init_once: "snd (repeat_gc_init (Suc n) rt) = snd (fax_gc_init rt)"
  using repeat_gc_init_initialized [OF fax_gc_init_initialized, of n rt]
  by (simp add: split_beta)

text \<open>
  C5 (as stated, refuted). The runtime keeps no root set. The state after
  \<^verbatim>\<open>fax_gc_register_root(a)\<close> is the state after registering \<open>a\<close> twice and unregistering
  it once, so there is no way to read the runtime state under which \<open>a\<close> is a root after
  the first and not a root after the second.
\<close>

theorem C5_no_root_set:
  "\<not> (\<exists>is_root :: runtime \<Rightarrow> voidp \<Rightarrow> bool.
        is_root (snd (fax_gc_register_root 4096 runtime_initial)) 4096
      \<and> \<not> is_root (snd (fax_gc_unregister_root 4096
                     (snd (fax_gc_register_root 4096
                        (snd (fax_gc_register_root 4096 runtime_initial)))))) 4096)"
  by (simp add: fax_gc_register_root_def fax_gc_unregister_root_def)

text \<open>
  C5 (amended). \<^verbatim>\<open>fax_gc_register_root\<close> and \<^verbatim>\<open>fax_gc_unregister_root\<close> accept every
  address, return 1 and leave the runtime state as it was. Registering an address again is
  therefore tolerated, and after registering \<open>a\<close> twice and unregistering it once the
  runtime is in the state it started from; no address is recorded as a root.
\<close>

theorem C5_roots_are_no_ops:
  "fax_gc_register_root a rt = (1, rt)
   \<and> fax_gc_unregister_root a rt = (1, rt)
   \<and> fax_gc_register_root a (snd (fax_gc_register_root a rt)) = (1, rt)
   \<and> fax_gc_unregister_root a
       (snd (fax_gc_register_root a (snd (fax_gc_register_root a rt)))) = (1, rt)"
  by (simp add: fax_gc_register_root_def fax_gc_unregister_root_def)

text \<open>
  C6 (as stated, refuted). After \<^verbatim>\<open>fax_gc_shutdown\<close>, \<^verbatim>\<open>fax_gc_alloc\<close> initialises the
  runtime again, but the allocation itself fails when \<^verbatim>\<open>malloc\<close> returns \<^verbatim>\<open>NULL\<close>: the
  call returns the null address and writes the diagnostic.
\<close>

theorem C6_alloc_after_shutdown_can_fail:
  "fax_gc_alloc (\<lambda>_. 0) 16 (fax_gc_shutdown \<lparr>gc_initialized = 1, stderr = []\<rparr>)
     = (0, \<lparr>gc_initialized = 1,
             stderr = [''GC allocation failed: out of memory'' @ [CHR 0x0A]]\<rparr>)"
  by (simp add: fax_gc_alloc_def fax_gc_shutdown_def fax_gc_init_def)

text \<open>
  C6 (amended). For every \<open>n \<ge> 1\<close>, calling \<^verbatim>\<open>fax_gc_init\<close> \<open>n\<close> times leaves the runtime in
  the state one call leaves it in, which is initialized, and every call returns 1. For
  every size, \<^verbatim>\<open>fax_gc_shutdown\<close> followed by \<^verbatim>\<open>fax_gc_alloc\<close> leaves the runtime
  initialized again and returns what \<^verbatim>\<open>malloc\<close> returned: the allocation succeeds, with
  nothing written to \<^verbatim>\<open>stderr\<close>, whenever \<^verbatim>\<open>malloc\<close> does.
\<close>

theorem C6_init_idempotent_alloc_after_shutdown:
  "(1 \<le> n \<longrightarrow>
      snd (repeat_gc_init n rt) = snd (fax_gc_init rt)
      \<and> fst (repeat_gc_init n rt) = replicate n 1
      \<and> gc_initialized (snd (repeat_gc_init n rt)) \<noteq> 0)
   \<and> gc_initialized (snd (fax_gc_alloc malloc sz (fax_gc_shutdown rt2))) = 1
   \<and> fst (fax_gc_alloc malloc sz (fax_gc_shutdown rt2)) = malloc sz
   \<and> (malloc sz \<noteq> 0 \<longrightarrow>
        fst (fax_gc_alloc malloc sz (fax_gc_shutdown rt2)) \<noteq> 0
        \<and> stderr (snd (fax_gc_alloc malloc sz (fax_gc_shutdown rt2))) = stderr rt2)"
proof -
  have init: "1 \<le> n \<longrightarrow>
      snd (repeat_gc_init n rt) = snd (fax_gc_init rt)
      \<and> fst (repeat_gc_init n rt) = replicate n 1
      \<and> gc_initialized (snd (repeat_gc_init n rt)) \<noteq> 0"
  proof (cases n)
    case 0
    then show ?thesis by simp
  next
    case (Suc m)
    then show ?thesis
      using repeat_gc_init_once [of m rt] repeat_gc_init_statuses [of n rt]
        fax_gc_init_initialized [of rt]
      by simp
  qed
  have alloc: "gc_initialized (snd (fax_gc_alloc malloc sz (fax_gc_shutdown rt2))) = 1
      \<and> fst (fax_gc_alloc malloc sz (fax_gc_shutdown rt2)) = malloc sz
      \<and> (malloc sz \<noteq> 0 \<longrightarrow>
           fst (fax_gc_alloc malloc sz (fax_gc_shutdown rt2)) \<noteq> 0
           \<and> stderr (snd (fax_gc_alloc malloc sz (fax_gc_shutdown rt2))) = stderr rt2)"
    by (simp add: fax_gc_alloc_def fax_gc_shutdown_def fax_gc_init_def Let_def)
  from init alloc show ?thesis by blast
qed

theorem C6_init_idempotent_alloc_after_shutdown_witness:
  "(1 :: nat) \<le> 3
   \<and> repeat_gc_init 3 runtime_initial = ([1, 1, 1], \<lparr>gc_initialized = 1, stderr = []\<rparr>)
   \<and> fax_gc_init runtime_initial = (1, \<lparr>gc_initialized = 1, stderr = []\<rparr>)
   \<and> (\<lambda>_. 4096 :: voidp) (16 :: size_t) \<noteq> 0
   \<and> fax_gc_alloc (\<lambda>_. 4096) 16 (fax_gc_shutdown \<lparr>gc_initialized = 1, stderr = []\<rparr>)
       = (4096, \<lparr>gc_initialized = 1, stderr = []\<rparr>)"
  using C6_init_idempotent_alloc_after_shutdown
    [of 3 runtime_initial "\<lambda>_. 4096" 16 "\<lparr>gc_initialized = 1, stderr = []\<rparr>"]
  by (simp add: runtime_initial_def fax_gc_init_def fax_gc_alloc_def fax_gc_shutdown_def
      numeral_3_eq_3 Let_def)

end
